theory Spec2Isabelle
  imports Main
begin

section \<open>The WebRTC manager: data\<close>

text \<open>
  The class \<open>WebRTCManager\<close> drives a signalling client (\<open>Signaller\<close>) and at most one
  \<open>Session\<close>. The manager is single threaded: its fields change only inside a
  callback (a signaller callback, a timer, the watcher of the selected stream, or the
  public method \<open>close\<close>). Each callback is a function from the state before it to the
  state after it. Calls that leave the manager (to the signaller, to the session, to
  \<open>window.setTimeout\<close>) are appended to a log, in the order the code makes them.
  \<open>console\<close> output is not modelled.
\<close>

text \<open>A catalog entry of the signalling protocol: the fields the manager reads.\<close>

record Stream =
  id_stream :: string
  name_stream :: string

text \<open>
  The arguments with which the manager constructs a \<open>Session\<close>. The consumer id is
  passed as \<open>this.consumerId!\<close>, which is \<open>undefined\<close> at run time when the field is.
\<close>

record Session =
  id_session :: string
  consumerId_session :: "string option"
  stream_session :: Stream

datatype timer = DiscoveryTimer | SessionTimer

datatype call =
    RequestConsumerId
  | RequestStreams
  | ParseAvailableStreamsAnswer
  | RequestSessionId string string
  | NewSession string "string option" Stream
  | ParseEndSessionQuestion "string option" string string
  | ParseNegotiation "string option" string string
  | SignallerEnd string
  | SessionEnd string
  | SetTimeout timer nat

text \<open>
  The first ten fields are the mutable fields of the class (a \<open>Ref\<close> is its value;
  \<open>rtcConfiguration\<close> and the \<open>signaller\<close> object never change). The others describe the
  world around it:
  \<^item> \<open>calls\<close>: the log of outgoing calls;
  \<^item> \<open>discoveryTimers\<close>, \<open>sessionTimers\<close>: the time-outs set and not yet fired;
  \<^item> \<open>streamsRequests\<close>: the \<open>requestStreams\<close> messages sent and not yet answered;
  \<^item> \<open>consumerRequests\<close>: the \<open>requestConsumerId\<close> messages not yet answered;
  \<^item> \<open>sessionRequests\<close>: the streams of the \<open>requestSessionId\<close> messages not yet
    answered (each callback closes over its stream);
  \<^item> \<open>selected\<close>: the value of the watched \<open>selectedStream\<close> when the watcher last ran;
  \<^item> \<open>clock\<close>, \<open>ticks\<close>: \<open>clock n\<close> is what
    \<open>new Date().toTimeString().split(' ').first()\<close> returns at its \<open>n\<close>-th evaluation,
    and \<open>ticks\<close> counts the evaluations so far.
\<close>

record manager =
  availableStreams :: "Stream list"
  mediaStream :: "nat option"
  signallerStatus :: string
  streamStatus :: string
  consumerId :: "string option"
  streamName :: "string option"
  session :: "Session option"
  hasEnded :: bool
  waitingForAvailableStreamsAnswer :: bool
  waitingForSessionStart :: bool
  calls :: "call list"
  discoveryTimers :: nat
  sessionTimers :: nat
  streamsRequests :: nat
  consumerRequests :: nat
  sessionRequests :: "Stream list"
  selected :: "Stream option"
  clock :: "nat \<Rightarrow> string"
  ticks :: nat

text \<open>The state after the constructor and \<open>startStream\<close>, which only sets the watcher.\<close>

definition init :: "Stream option \<Rightarrow> (nat \<Rightarrow> string) \<Rightarrow> manager" where
  "init sel clk =
     \<lparr> availableStreams = [], mediaStream = None,
       signallerStatus = ''waiting...'', streamStatus = ''waiting...'',
       consumerId = None, streamName = None, session = None,
       hasEnded = False, waitingForAvailableStreamsAnswer = False,
       waitingForSessionStart = False,
       calls = [], discoveryTimers = 0, sessionTimers = 0, streamsRequests = 0,
       consumerRequests = 0, sessionRequests = [], selected = sel,
       clock = clk, ticks = 0 \<rparr>"

section \<open>Outgoing calls\<close>

definition emit :: "call \<Rightarrow> manager \<Rightarrow> manager" where
  "emit c s = s\<lparr>calls := calls s @ [c]\<rparr>"

text \<open>\<open>window.setTimeout(callback, 1000)\<close>\<close>

definition setTimeout :: "timer \<Rightarrow> manager \<Rightarrow> manager" where
  "setTimeout k s =
     (case k of
        DiscoveryTimer \<Rightarrow> (emit (SetTimeout k 1000) s)\<lparr>discoveryTimers := Suc (discoveryTimers s)\<rparr>
      | SessionTimer \<Rightarrow> (emit (SetTimeout k 1000) s)\<lparr>sessionTimers := Suc (sessionTimers s)\<rparr>)"

definition requestStreams :: "manager \<Rightarrow> manager" where
  "requestStreams s = (emit RequestStreams s)\<lparr>streamsRequests := Suc (streamsRequests s)\<rparr>"

definition requestConsumerId :: "manager \<Rightarrow> manager" where
  "requestConsumerId s = (emit RequestConsumerId s)\<lparr>consumerRequests := Suc (consumerRequests s)\<rparr>"

text \<open>How a template literal prints a value that may be \<open>undefined\<close>.\<close>

definition show_opt :: "string option \<Rightarrow> string" where
  "show_opt x = (case x of None \<Rightarrow> ''undefined'' | Some v \<Rightarrow> v)"

definition dq :: string where
  "dq = [CHR 0x22]"

section \<open>The methods of the manager\<close>

definition updateStreamStatus :: "string \<Rightarrow> manager \<Rightarrow> manager" where
  "updateStreamStatus newStatus s =
     s\<lparr>streamStatus := newStatus @ '' ('' @ clock s (ticks s) @ '')'', ticks := Suc (ticks s)\<rparr>"

definition updateSignallerStatus :: "string \<Rightarrow> manager \<Rightarrow> manager" where
  "updateSignallerStatus newStatus s =
     s\<lparr>signallerStatus := newStatus @ '' ('' @ clock s (ticks s) @ '')'', ticks := Suc (ticks s)\<rparr>"

definition updateStreamsAvailable :: "manager \<Rightarrow> manager" where
  "updateStreamsAvailable s =
     (if waitingForAvailableStreamsAnswer s then requestStreams s
      else if hasEnded s then s\<lparr>waitingForAvailableStreamsAnswer := False\<rparr>
      else setTimeout DiscoveryTimer (s\<lparr>waitingForAvailableStreamsAnswer := True\<rparr>))"

text \<open>The callback given to \<open>setTimeout\<close> by \<open>updateStreamsAvailable\<close>.\<close>

definition onDiscoveryTimeout :: "manager \<Rightarrow> manager" where
  "onDiscoveryTimeout s =
     (if \<not> waitingForAvailableStreamsAnswer s then s
      else requestStreams (emit ParseAvailableStreamsAnswer s))"

text \<open>The callback given to \<open>parseAvailableStreamsAnswer\<close>.\<close>

definition onAvailableStreams :: "Stream list \<Rightarrow> manager \<Rightarrow> manager" where
  "onAvailableStreams streams s =
     (if \<not> waitingForAvailableStreamsAnswer s then s
      else updateStreamsAvailable
             (s\<lparr>waitingForAvailableStreamsAnswer := False, availableStreams := streams\<rparr>))"

definition startConsumer :: "manager \<Rightarrow> manager" where
  "startConsumer s =
     (let s1 = s\<lparr>hasEnded := False\<rparr>;
          s2 = (if consumerId s1 = None then requestConsumerId s1 else s1)
      in updateStreamsAvailable (s2\<lparr>availableStreams := []\<rparr>))"

text \<open>The first callback given to \<open>requestConsumerId\<close>.\<close>

definition onConsumerIdReceived :: "string \<Rightarrow> manager \<Rightarrow> manager" where
  "onConsumerIdReceived newConsumerId s = s\<lparr>consumerId := Some newConsumerId\<rparr>"

text \<open>
  \<open>const [remoteStream] = event.streams\<close> is \<open>undefined\<close> for an empty array. The
  assignment to \<open>mediaStream\<close> happens first; then \<open>this.mediaStream.value.getVideoTracks()\<close>
  throws a \<open>TypeError\<close> on \<open>undefined\<close>. The result is the error, if any, and the state
  the method leaves behind. The handles of media streams are opaque numbers here; the
  content hints are set on the tracks, outside the manager.
\<close>

datatype error = TypeError

definition onTrackAdded :: "nat list \<Rightarrow> manager \<Rightarrow> error option \<times> manager" where
  "onTrackAdded streams s =
     (case streams of
        [] \<Rightarrow> (Some TypeError, s\<lparr>mediaStream := None\<rparr>)
      | remoteStream # _ \<Rightarrow> (None, s\<lparr>mediaStream := Some remoteStream\<rparr>))"

definition requestSession :: "Stream \<Rightarrow> string \<Rightarrow> manager \<Rightarrow> manager" where
  "requestSession stream cid s =
     (emit (RequestSessionId cid (id_stream stream)) s)
       \<lparr>sessionRequests := sessionRequests s @ [stream], hasEnded := False\<rparr>"

definition startSession :: "manager \<Rightarrow> manager" where
  "startSession s =
     (if waitingForSessionStart s then s
      else setTimeout SessionTimer (s\<lparr>waitingForSessionStart := True\<rparr>))"

definition not_available_msg :: "manager \<Rightarrow> string" where
  "not_available_msg s =
     ''Failed to start a new Session with '' @ dq @ show_opt (streamName s) @ dq
       @ ''. Reason: not available''"

definition starting_msg :: "Stream \<Rightarrow> manager \<Rightarrow> string" where
  "starting_msg stream s =
     ''Starting session with producer '' @ dq @ id_stream stream @ dq @ '' ('' @ dq
       @ show_opt (streamName s) @ dq @ '')''"

definition no_consumer_msg :: "Stream \<Rightarrow> manager \<Rightarrow> string" where
  "no_consumer_msg stream s =
     ''Failed to start a new Session with producer'' @ dq @ id_stream stream @ dq @ '' (''
       @ dq @ show_opt (streamName s) @ dq @ ''). Reason: undefined consumerId''"

text \<open>
  The callback given to \<open>setTimeout\<close> by \<open>startSession\<close>. \<open>s.name === this.streamName\<close>
  compares a string with a string or \<open>undefined\<close>.
\<close>

definition onSessionTimeout :: "manager \<Rightarrow> manager" where
  "onSessionTimeout s =
     (if \<not> waitingForSessionStart s then s
      else case find (\<lambda>st. Some (name_stream st) = streamName s) (availableStreams s) of
        None \<Rightarrow>
          startSession ((updateStreamStatus (not_available_msg s) s)\<lparr>waitingForSessionStart := False\<rparr>)
      | Some stream \<Rightarrow>
          (let s1 = updateStreamStatus (starting_msg stream s) s
           in case consumerId s1 of
                None \<Rightarrow> startSession (startConsumer (updateStreamStatus (no_consumer_msg stream s1) s1))
              | Some cid \<Rightarrow> (requestSession stream cid s1)\<lparr>waitingForSessionStart := False\<rparr>))"

definition stopSession :: "string \<Rightarrow> manager \<Rightarrow> manager" where
  "stopSession reason s =
     (case session s of
        None \<Rightarrow> s
      | Some ses \<Rightarrow>
          (emit (SessionEnd (id_session ses))
             (updateStreamStatus (''Stopping session '' @ id_session ses @ ''. Reason: '' @ reason) s))
            \<lparr>session := None, hasEnded := True\<rparr>)"

definition onSessionClosed :: "string \<Rightarrow> manager \<Rightarrow> manager" where
  "onSessionClosed reason s =
     startSession (startConsumer ((stopSession reason s)\<lparr>consumerId := None\<rparr>))"

definition onSessionIdReceived :: "Stream \<Rightarrow> string \<Rightarrow> string \<Rightarrow> manager \<Rightarrow> manager" where
  "onSessionIdReceived stream producerId receivedSessionId s =
     (let ses = \<lparr>id_session = receivedSessionId, consumerId_session = consumerId s,
                 stream_session = stream\<rparr>;
          s1 = (emit (NewSession receivedSessionId (consumerId s) stream) s)\<lparr>session := Some ses\<rparr>;
          s2 = emit (ParseEndSessionQuestion (consumerId s1) producerId (id_session ses)) s1;
          s3 = emit (ParseNegotiation (consumerId s2) producerId (id_session ses)) s2
      in updateStreamStatus (''Session '' @ id_session ses @ '' successfully started'') s3)"

text \<open>The callback given to \<open>parseEndSessionQuestion\<close>.\<close>

definition onEndSessionQuestion :: "manager \<Rightarrow> manager" where
  "onEndSessionQuestion s = s\<lparr>session := None, hasEnded := True\<rparr>"

definition close :: "string \<Rightarrow> manager \<Rightarrow> manager" where
  "close reason s = (emit (SignallerEnd reason) (stopSession reason s))\<lparr>hasEnded := True\<rparr>"

text \<open>The watcher that \<open>startStream\<close> sets on the selected stream.\<close>

definition onSelectedStreamChanged :: "Stream option \<Rightarrow> Stream option \<Rightarrow> manager \<Rightarrow> manager" where
  "onSelectedStreamChanged newStream oldStream s =
     (if map_option id_stream newStream = map_option id_stream oldStream then s
      else
        let msg = ''Selected stream changed from '' @ dq @ show_opt (map_option id_stream oldStream)
                    @ dq @ '' to '' @ dq @ show_opt (map_option id_stream newStream) @ dq @ ''.'';
            s1 = (if oldStream \<noteq> None then stopSession msg s else s)
        in case newStream of
             None \<Rightarrow> s1
           | Some new \<Rightarrow> startSession (s1\<lparr>streamName := Some (name_stream new)\<rparr>))"

section \<open>Events\<close>

text \<open>
  Modelled from the spec: the \<open>Signaller\<close>, the \<open>Session\<close> and the browser's timer
  queue are not part of the manager's source. The spec describes every request of the
  signalling client as an asynchronous request/response pair, so an answer is an event
  that needs a pending request and uses it up; a time-out fires once after it was set;
  a callback of a session needs that session to have been constructed; the watcher runs
  when the selected stream is assigned (never from \<open>undefined\<close> to \<open>undefined\<close>) and
  receives the value it saw last as the old one. An event that cannot happen in a
  state has no successor (\<open>None\<close>). An exception that leaves a callback ends the event;
  the fields keep what was assigned before it.
\<close>

datatype event =
    SignallerOpen
  | SignallerStatus string
  | StreamStatus string
  | ConsumerIdReceived string
  | TimerFired timer
  | AvailableStreamsAnswer "Stream list"
  | SessionIdReceived Stream string
  | EndSessionQuestion string string
  | SessionClosed string string
  | TrackAdded string "nat list"
  | SelectStream "Stream option"
  | Close string

definition status_callback_given :: "manager \<Rightarrow> bool" where
  "status_callback_given s =
     list_ex (\<lambda>c. case c of RequestConsumerId \<Rightarrow> True | RequestSessionId _ _ \<Rightarrow> True | _ \<Rightarrow> False)
       (calls s)"

definition session_created :: "string \<Rightarrow> manager \<Rightarrow> bool" where
  "session_created sid s =
     list_ex (\<lambda>c. case c of NewSession i _ _ \<Rightarrow> i = sid | _ \<Rightarrow> False) (calls s)"

fun step :: "event \<Rightarrow> manager \<Rightarrow> manager option" where
  "step SignallerOpen s = Some (startConsumer s)"
| "step (SignallerStatus newStatus) s = Some (updateSignallerStatus newStatus s)"
| "step (StreamStatus newStatus) s =
     (if status_callback_given s then Some (updateStreamStatus newStatus s) else None)"
| "step (ConsumerIdReceived newConsumerId) s =
     (if 0 < consumerRequests s
      then Some (onConsumerIdReceived newConsumerId (s\<lparr>consumerRequests := consumerRequests s - 1\<rparr>))
      else None)"
| "step (TimerFired DiscoveryTimer) s =
     (if 0 < discoveryTimers s
      then Some (onDiscoveryTimeout (s\<lparr>discoveryTimers := discoveryTimers s - 1\<rparr>))
      else None)"
| "step (TimerFired SessionTimer) s =
     (if 0 < sessionTimers s
      then Some (onSessionTimeout (s\<lparr>sessionTimers := sessionTimers s - 1\<rparr>))
      else None)"
| "step (AvailableStreamsAnswer streams) s =
     (if 0 < streamsRequests s \<and> ParseAvailableStreamsAnswer \<in> set (calls s)
      then Some (onAvailableStreams streams (s\<lparr>streamsRequests := streamsRequests s - 1\<rparr>))
      else None)"
| "step (SessionIdReceived stream receivedSessionId) s =
     (if stream \<in> set (sessionRequests s)
      then Some (onSessionIdReceived stream (id_stream stream) receivedSessionId
                   (s\<lparr>sessionRequests := remove1 stream (sessionRequests s)\<rparr>))
      else None)"
| "step (EndSessionQuestion sessionId reason) s =
     (if session_created sessionId s then Some (onEndSessionQuestion s) else None)"
| "step (SessionClosed sessionId reason) s =
     (if session_created sessionId s then Some (onSessionClosed reason s) else None)"
| "step (TrackAdded sessionId streams) s =
     (if session_created sessionId s then Some (snd (onTrackAdded streams s)) else None)"
| "step (SelectStream newStream) s =
     (if newStream = None \<and> selected s = None then None
      else Some ((onSelectedStreamChanged newStream (selected s) s)\<lparr>selected := newStream\<rparr>))"
| "step (Close reason) s = Some (close reason s)"

fun run :: "event list \<Rightarrow> manager \<Rightarrow> manager option" where
  "run [] s = Some s"
| "run (e # es) s = (case step e s of None \<Rightarrow> None | Some s' \<Rightarrow> run es s')"

text \<open>The events of the discovery poll alone: its time-out and its answer.\<close>

fun is_discovery :: "event \<Rightarrow> bool" where
  "is_discovery (TimerFired DiscoveryTimer) = True"
| "is_discovery (AvailableStreamsAnswer _) = True"
| "is_discovery _ = False"

text \<open>
  The events that reach \<open>startConsumer\<close>, and through it \<open>updateStreamsAvailable\<close>, while
  \<open>waitingForAvailableStreamsAnswer\<close> is set: the channel opening, a session reporting
  that it closed, and the session time-out that finds the stream but no consumer id.
\<close>

fun reenters :: "event \<Rightarrow> manager \<Rightarrow> bool" where
  "reenters SignallerOpen s = waitingForAvailableStreamsAnswer s"
| "reenters (SessionClosed _ _) s = waitingForAvailableStreamsAnswer s"
| "reenters (TimerFired SessionTimer) s =
     (waitingForAvailableStreamsAnswer s \<and> waitingForSessionStart s \<and> consumerId s = None \<and>
      find (\<lambda>st. Some (name_stream st) = streamName s) (availableStreams s) \<noteq> None)"
| "reenters _ s = False"

text \<open>A sequence of events that all happen, none of them of that kind.\<close>

fun calm :: "event list \<Rightarrow> manager \<Rightarrow> bool" where
  "calm [] s = True"
| "calm (e # es) s =
     (\<not> reenters e s \<and> (case step e s of None \<Rightarrow> False | Some s' \<Rightarrow> calm es s'))"

text \<open>
  The discovery time-outs and source-list requests outstanding: at most one, and none
  unless the flag is set.
\<close>

definition poll_bound :: "manager \<Rightarrow> bool" where
  "poll_bound s =
     (discoveryTimers s + streamsRequests s
        \<le> (if waitingForAvailableStreamsAnswer s then 1 else 0))"

definition cam :: Stream where
  "cam = \<lparr>id_stream = ''p1'', name_stream = ''cam''\<rparr>"

definition cam2 :: Stream where
  "cam2 = \<lparr>id_stream = ''p2'', name_stream = ''cam2''\<rparr>"

definition noon :: "nat \<Rightarrow> string" where
  "noon n = ''12:00:00''"

text \<open>A status text as both \<open>update...Status\<close> methods write it: \<open>`${newStatus} (${time})`\<close>.\<close>

definition stamped :: "string \<Rightarrow> string \<Rightarrow> string" where
  "stamped msg time = msg @ '' ('' @ time @ '')''"

fun is_session_request :: "call \<Rightarrow> bool" where
  "is_session_request (RequestSessionId _ _) = True"
| "is_session_request _ = False"

section \<open>Scenarios\<close>

text \<open>The same producer after its name was edited: same id, other name.\<close>

definition cam_renamed :: Stream where
  "cam_renamed = \<lparr>id_stream = ''p1'', name_stream = ''front''\<rparr>"

text \<open>
  The channel opens, a first poll is answered with \<open>cam\<close>, the caller selects \<open>cam\<close>, a
  second poll is sent. No consumer id has arrived yet.
\<close>

definition second_poll_in_flight :: "event list" where
  "second_poll_in_flight =
     [SignallerOpen, TimerFired DiscoveryTimer, AvailableStreamsAnswer [cam],
      SelectStream (Some cam), TimerFired DiscoveryTimer]"

text \<open>Registered, \<open>cam\<close> discovered and selected, then \<open>close\<close> before the session time-out.\<close>

definition closed_while_requesting :: "event list" where
  "closed_while_requesting =
     [SignallerOpen, ConsumerIdReceived ''A1'', TimerFired DiscoveryTimer,
      AvailableStreamsAnswer [cam], SelectStream (Some cam), Close ''bye'']"

definition one_more_poll :: "event list" where
  "one_more_poll = [TimerFired DiscoveryTimer, AvailableStreamsAnswer [cam]]"

text \<open>A session for \<open>cam\<close> is requested, the caller moves to \<open>cam2\<close>, the session id arrives.\<close>

definition reselect_while_pending :: "event list" where
  "reselect_while_pending =
     [SignallerOpen, ConsumerIdReceived ''A1'', TimerFired DiscoveryTimer,
      AvailableStreamsAnswer [cam, cam2], SelectStream (Some cam), TimerFired SessionTimer,
      SelectStream (Some cam2), SessionIdReceived cam ''S1'']"

text \<open>The session time-out finds \<open>cam\<close> in the catalog before any consumer id has arrived.\<close>

definition no_consumer_yet :: "event list" where
  "no_consumer_yet =
     [SignallerOpen, TimerFired DiscoveryTimer, AvailableStreamsAnswer [cam],
      SelectStream (Some cam), TimerFired SessionTimer]"

text \<open>Scenario A of the spec up to the running session \<open>S1\<close> on \<open>cam\<close>.\<close>

definition to_active :: "event list" where
  "to_active =
     [SignallerOpen, ConsumerIdReceived ''A1'', TimerFired DiscoveryTimer,
      AvailableStreamsAnswer [cam], SelectStream (Some cam), TimerFired SessionTimer,
      SessionIdReceived cam ''S1'']"

definition active :: manager where
  "active = the (run to_active (init None noon))"

text \<open>Scenario A goes on: another poll is answered, and the caller closes.\<close>

definition calm_run :: "event list" where
  "calm_run =
     to_active @ [TimerFired DiscoveryTimer, AvailableStreamsAnswer [cam, cam2], Close ''bye'']"

text \<open>
  Scenario B of the spec: the session \<open>S1\<close> closes; the fresh catalog arrives and the
  session time-out fires before the new consumer id has arrived.
\<close>

definition closed_then_stalled :: "event list" where
  "closed_then_stalled =
     to_active @ [SessionClosed ''S1'' ''transport failure'', AvailableStreamsAnswer [cam],
                  TimerFired SessionTimer]"

text \<open>
  The session time-out for \<open>cam\<close> fires before any consumer id has arrived; then the
  consumer id arrives and the caller selects \<open>cam2\<close>, which is in the catalog.
\<close>

definition stalled_then_selected :: "event list" where
  "stalled_then_selected =
     [SignallerOpen, TimerFired DiscoveryTimer, AvailableStreamsAnswer [cam, cam2],
      SelectStream (Some cam), TimerFired SessionTimer, ConsumerIdReceived ''A1'',
      SelectStream (Some cam2)]"

text \<open>Registered, the catalog holds only \<open>cam2\<close>, and \<open>cam\<close> was just selected.\<close>

definition to_missing :: "event list" where
  "to_missing =
     [SignallerOpen, ConsumerIdReceived ''A1'', TimerFired DiscoveryTimer,
      AvailableStreamsAnswer [cam2], SelectStream (Some cam)]"

definition missing :: manager where
  "missing = the (run to_missing (init None noon))"

text \<open>
  Registered, the catalog holds only \<open>cam2\<close>, \<open>cam\<close> was selected, the next poll is in
  flight, and the session time-out has just fired (it is no longer pending).
\<close>

definition to_polling :: "event list" where
  "to_polling = to_missing @ [TimerFired DiscoveryTimer]"

definition polling :: manager where
  "polling = (the (run to_polling (init None noon)))\<lparr>sessionTimers := 0\<rparr>"

text \<open>The channel opens, the consumer id arrives, the caller selects \<open>cam\<close> and closes.\<close>

definition quiet_transitions :: "event list" where
  "quiet_transitions =
     [SignallerOpen, ConsumerIdReceived ''A1'', SelectStream (Some cam), Close ''bye'']"

section \<open>Evaluation and helper lemmas\<close>

lemmas method_defs =
  emit_def setTimeout_def requestStreams_def requestConsumerId_def show_opt_def
  updateStreamStatus_def updateSignallerStatus_def updateStreamsAvailable_def
  onDiscoveryTimeout_def onAvailableStreams_def startConsumer_def onConsumerIdReceived_def
  onTrackAdded_def requestSession_def startSession_def onSessionTimeout_def stopSession_def
  onSessionClosed_def onSessionIdReceived_def onEndSessionQuestion_def close_def
  onSelectedStreamChanged_def

lemmas eval_defs =
  method_defs init_def cam_def cam2_def cam_renamed_def noon_def session_created_def
  to_active_def to_missing_def
  status_callback_given_def starting_msg_def not_available_msg_def no_consumer_msg_def
  dq_def stamped_def Let_def

lemma find_first:
  "\<forall>x\<in>set pre. \<not> P x \<Longrightarrow> P y \<Longrightarrow> find P (pre @ y # post) = Some y"
  by (induction pre) auto

lemma onSessionTimeout_request:
  assumes "waitingForSessionStart t"
    and "find (\<lambda>st. Some (name_stream st) = streamName t) (availableStreams t) = Some stream"
    and "consumerId t = Some cid"
  shows "calls (onSessionTimeout t) = calls t @ [RequestSessionId cid (id_stream stream)]"
  using assms
  by (simp add: onSessionTimeout_def updateStreamStatus_def requestSession_def emit_def Let_def)

lemma reached:
  "run to_active (init None noon) = Some active"
  "run to_missing (init None noon) = Some missing"
  "step (TimerFired SessionTimer) (the (run to_polling (init None noon))) = Some (onSessionTimeout polling)"
  by (simp_all add: active_def missing_def polling_def to_polling_def eval_defs)

lemma active_eval:
  "session active = Some \<lparr>id_session = ''S1'', consumerId_session = Some ''A1'',
                           stream_session = cam\<rparr>"
  "\<not> waitingForSessionStart active"
  "streamName active = Some ''cam''"
  "consumerId active = Some ''A1''"
  "waitingForAvailableStreamsAnswer active"
  by (simp_all add: active_def eval_defs)

lemma missing_eval:
  "waitingForSessionStart missing"
  "session missing = None"
  "availableStreams missing = [cam2]"
  "streamName missing = Some ''cam''"
  "sessionTimers missing = 1"
  "ticks missing = 0"
  "clock missing = noon"
  "calls missing =
     [RequestConsumerId, SetTimeout DiscoveryTimer 1000, ParseAvailableStreamsAnswer,
      RequestStreams, SetTimeout DiscoveryTimer 1000, SetTimeout SessionTimer 1000]"
  by (simp_all add: missing_def eval_defs)

subsection \<open>The discovery poll on its own, once \<open>hasEnded\<close> is set\<close>

lemma step_discovery_ended:
  assumes "is_discovery e" and "step e s = Some s'" and "hasEnded s"
  shows "hasEnded s' \<and>
     count_list (calls s') RequestStreams + discoveryTimers s'
       \<le> count_list (calls s) RequestStreams + discoveryTimers s \<and>
     count_list (calls s') (SetTimeout DiscoveryTimer 1000)
       = count_list (calls s) (SetTimeout DiscoveryTimer 1000)"
proof (cases e)
  case (TimerFired k)
  with assms show ?thesis
    by (cases k) (auto simp: onDiscoveryTimeout_def requestStreams_def emit_def split: if_splits)
next
  case (AvailableStreamsAnswer streams)
  with assms show ?thesis
    by (auto simp: onAvailableStreams_def updateStreamsAvailable_def setTimeout_def emit_def
        split: if_splits)
qed (use assms in simp_all)

lemma run_discovery_ended:
  assumes "\<forall>e\<in>set es. is_discovery e" and "run es s = Some s'" and "hasEnded s"
  shows "hasEnded s' \<and>
     count_list (calls s') RequestStreams + discoveryTimers s'
       \<le> count_list (calls s) RequestStreams + discoveryTimers s \<and>
     count_list (calls s') (SetTimeout DiscoveryTimer 1000)
       = count_list (calls s) (SetTimeout DiscoveryTimer 1000)"
  using assms
proof (induction es arbitrary: s)
  case Nil
  then show ?case by simp
next
  case (Cons e es)
  from Cons.prems(2) obtain t where t: "step e s = Some t" "run es t = Some s'"
    by (auto split: option.splits)
  from Cons.prems(1) have "is_discovery e" by simp
  from step_discovery_ended [OF this t(1) Cons.prems(3)]
  have st: "hasEnded t"
    "count_list (calls t) RequestStreams + discoveryTimers t
       \<le> count_list (calls s) RequestStreams + discoveryTimers s"
    "count_list (calls t) (SetTimeout DiscoveryTimer 1000)
       = count_list (calls s) (SetTimeout DiscoveryTimer 1000)"
    by simp_all
  from Cons.IH [of t] Cons.prems(1) t(2) st(1)
  have "hasEnded s' \<and>
     count_list (calls s') RequestStreams + discoveryTimers s'
       \<le> count_list (calls t) RequestStreams + discoveryTimers t \<and>
     count_list (calls s') (SetTimeout DiscoveryTimer 1000)
       = count_list (calls t) (SetTimeout DiscoveryTimer 1000)"
    by simp
  with st show ?case by simp
qed

subsection \<open>The session-request loop with its flag set and no time-out pending\<close>

text \<open>
  \<open>waitingForSessionStart\<close> is cleared only inside the time-out callback of
  \<open>startSession\<close>, and \<open>startSession\<close> sets a time-out only when the flag is clear. So
  once the flag is set while no session time-out is pending, no event changes either,
  and no session request is sent any more.
\<close>

lemma step_stalled:
  assumes "waitingForSessionStart s" and "sessionTimers s = 0" and "step e s = Some s'"
  shows "waitingForSessionStart s' \<and> sessionTimers s' = 0 \<and>
     filter is_session_request (calls s') = filter is_session_request (calls s)"
proof (cases e)
  case (TimerFired k)
  with assms show ?thesis
    by (cases k) (auto simp: onDiscoveryTimeout_def requestStreams_def emit_def split: if_splits)
next
  case (SelectStream newStream)
  with assms show ?thesis
    by (auto simp: method_defs Let_def split: if_splits option.splits)
next
  case (SessionClosed sid reason)
  with assms show ?thesis
    by (auto simp: method_defs Let_def split: if_splits option.splits)
next
  case SignallerOpen
  with assms show ?thesis
    by (auto simp: method_defs Let_def split: if_splits option.splits)
next
  case (Close reason)
  with assms show ?thesis
    by (auto simp: method_defs Let_def split: if_splits option.splits)
next
  case (AvailableStreamsAnswer streams)
  with assms show ?thesis
    by (auto simp: method_defs Let_def split: if_splits option.splits)
next
  case (SessionIdReceived stream sid)
  with assms show ?thesis
    by (auto simp: method_defs Let_def split: if_splits option.splits)
qed (use assms in \<open>auto simp: method_defs split: if_splits list.splits\<close>)

lemma run_stalled:
  assumes "waitingForSessionStart s" and "sessionTimers s = 0" and "run es s = Some s'"
  shows "waitingForSessionStart s' \<and> sessionTimers s' = 0 \<and>
     filter is_session_request (calls s') = filter is_session_request (calls s)"
  using assms
proof (induction es arbitrary: s)
  case Nil
  then show ?case by simp
next
  case (Cons e es)
  from Cons.prems(3) obtain t where t: "step e s = Some t" "run es t = Some s'"
    by (auto split: option.splits)
  from step_stalled [OF Cons.prems(1,2) t(1)] Cons.IH [of t] t(2)
  show ?case by simp
qed

lemma onSessionTimeout_no_consumer:
  assumes "waitingForSessionStart s"
    and "find (\<lambda>st. Some (name_stream st) = streamName s) (availableStreams s) = Some stream"
    and "consumerId s = None"
  shows "waitingForSessionStart (onSessionTimeout s) \<and>
    sessionTimers (onSessionTimeout s) = sessionTimers s \<and>
    filter is_session_request (calls (onSessionTimeout s)) = filter is_session_request (calls s)"
  using assms by (simp add: method_defs Let_def)

subsection \<open>Runs\<close>

lemma run_append:
  "run (xs @ ys) s = (case run xs s of None \<Rightarrow> None | Some t \<Rightarrow> run ys t)"
  by (induction xs arbitrary: s) (auto split: option.splits)

subsection \<open>The discovery poll when nothing re-enters it\<close>

lemma step_poll_bound:
  assumes "poll_bound s" and "\<not> reenters e s" and "step e s = Some s'"
  shows "poll_bound s'"
proof (cases e)
  case (TimerFired k)
  with assms show ?thesis
    by (cases k)
      (auto simp: method_defs poll_bound_def Let_def split: if_splits option.splits)
next
  case (TrackAdded sid streams)
  with assms show ?thesis
    by (auto simp: method_defs poll_bound_def split: if_splits list.splits)
qed (use assms in \<open>auto simp: method_defs poll_bound_def Let_def split: if_splits option.splits\<close>)

lemma run_poll_bound:
  assumes "poll_bound s" and "calm es s" and "run es s = Some s'"
  shows "poll_bound s'"
  using assms
proof (induction es arbitrary: s)
  case Nil
  then show ?case by simp
next
  case (Cons e es)
  from Cons.prems(3) obtain t where t: "step e s = Some t" "run es t = Some s'"
    by (auto split: option.splits)
  from Cons.prems(2) t(1) have c: "\<not> reenters e s" "calm es t"
    by simp_all
  from step_poll_bound [OF Cons.prems(1) c(1) t(1)] have "poll_bound t" .
  from Cons.IH [OF this c(2) t(2)] show ?case .
qed

lemma calm_append: "calm (es @ rest) s \<Longrightarrow> calm es s"
  by (induction es arbitrary: s) (auto split: option.splits)

lemma step_reenters:
  assumes "reenters e s" and "step e s = Some t"
  shows "streamsRequests t = Suc (streamsRequests s) \<and> discoveryTimers t = discoveryTimers s \<and>
     count_list (calls t) RequestStreams = Suc (count_list (calls s) RequestStreams) \<and>
     count_list (calls t) (SetTimeout DiscoveryTimer 1000)
       = count_list (calls s) (SetTimeout DiscoveryTimer 1000) \<and>
     waitingForAvailableStreamsAnswer t"
proof (cases e)
  case (TimerFired k)
  with assms show ?thesis
    by (cases k)
      (auto simp: method_defs Let_def split: if_splits option.splits)
qed (use assms in \<open>auto simp: method_defs Let_def split: if_splits option.splits\<close>)

subsection \<open>The session time-out that misses\<close>

lemma onSessionTimeout_miss:
  assumes "waitingForSessionStart s"
    and "find (\<lambda>st. Some (name_stream st) = streamName s) (availableStreams s) = None"
  shows "onSessionTimeout s
     = setTimeout SessionTimer (updateStreamStatus (not_available_msg s) s)"
  using assms
  by (simp add: onSessionTimeout_def startSession_def updateStreamStatus_def setTimeout_def emit_def)

lemma misses_repeat:
  assumes "waitingForSessionStart t" and "0 < sessionTimers t"
    and "find (\<lambda>st. Some (name_stream st) = streamName t) (availableStreams t) = None"
  shows "\<exists>u. run (replicate n (TimerFired SessionTimer)) t = Some u \<and>
     waitingForSessionStart u \<and> sessionTimers u = sessionTimers t \<and>
     availableStreams u = availableStreams t \<and> streamName u = streamName t \<and>
     filter is_session_request (calls u) = filter is_session_request (calls t)"
  using assms
proof (induction n arbitrary: t)
  case 0
  then show ?case by simp
next
  case (Suc n)
  let ?p = "t\<lparr>sessionTimers := sessionTimers t - 1\<rparr>"
  let ?t' = "onSessionTimeout ?p"
  from Suc.prems have m: "?t' = setTimeout SessionTimer (updateStreamStatus (not_available_msg ?p) ?p)"
    by (intro onSessionTimeout_miss) simp_all
  from Suc.prems(2) have s: "step (TimerFired SessionTimer) t = Some ?t'"
    by simp
  from m Suc.prems have f: "waitingForSessionStart ?t'" "sessionTimers ?t' = sessionTimers t"
    "availableStreams ?t' = availableStreams t" "streamName ?t' = streamName t"
    "filter is_session_request (calls ?t') = filter is_session_request (calls t)"
    by (simp_all add: setTimeout_def emit_def updateStreamStatus_def)
  from f Suc.prems have "0 < sessionTimers ?t'"
    "find (\<lambda>st. Some (name_stream st) = streamName ?t') (availableStreams ?t') = None"
    by simp_all
  from Suc.IH [OF f(1) this] obtain u where
    u: "run (replicate n (TimerFired SessionTimer)) ?t' = Some u"
      "waitingForSessionStart u" "sessionTimers u = sessionTimers ?t'"
      "availableStreams u = availableStreams ?t'" "streamName u = streamName ?t'"
      "filter is_session_request (calls u) = filter is_session_request (calls ?t')"
    by blast
  from s u(1) have "run (replicate (Suc n) (TimerFired SessionTimer)) t = Some u"
    by simp
  with u f show ?case by simp
qed

lemma refresh_then_recheck:
  assumes w: "waitingForSessionStart s1"
    and a: "waitingForAvailableStreamsAnswer s1"
    and s2: "step (AvailableStreamsAnswer streams) s1 = Some s2"
    and s3: "step (TimerFired SessionTimer) s2 = Some s3"
  shows "availableStreams s2 = streams \<and>
     (case find (\<lambda>st. Some (name_stream st) = streamName s1) streams of
        None \<Rightarrow> calls s3 = calls s2 @ [SetTimeout SessionTimer 1000] \<and>
                waitingForSessionStart s3 \<and> 0 < sessionTimers s3
      | Some stream \<Rightarrow>
          (case consumerId s1 of
             None \<Rightarrow> True
           | Some cid \<Rightarrow> calls s3 = calls s2 @ [RequestSessionId cid (id_stream stream)] \<and>
                       \<not> waitingForSessionStart s3))"
proof -
  from a s2 have e: "availableStreams s2 = streams" "waitingForSessionStart s2 = waitingForSessionStart s1"
    "streamName s2 = streamName s1" "consumerId s2 = consumerId s1"
    by (auto simp: onAvailableStreams_def updateStreamsAvailable_def setTimeout_def emit_def
        split: if_splits)
  from s3 have "s3 = onSessionTimeout (s2\<lparr>sessionTimers := sessionTimers s2 - 1\<rparr>)"
    by (auto split: if_splits)
  with e w show ?thesis
    by (simp add: onSessionTimeout_def startSession_def updateStreamStatus_def setTimeout_def
        emit_def requestSession_def Let_def split: option.split)
qed

lemma polling_eval:
  "waitingForSessionStart polling"
  "waitingForAvailableStreamsAnswer polling"
  "availableStreams polling = [cam2]"
  "streamName polling = Some ''cam''"
  "consumerId polling = Some ''A1''"
  "sessionTimers polling = 0"
  by (simp_all add: polling_def to_polling_def eval_defs)

subsection \<open>What \<open>onSessionClosed\<close> does at once\<close>

lemma onSessionClosed_effects:
  "session (onSessionClosed reason s) = None \<and>
   consumerId (onSessionClosed reason s) = None \<and>
   streamName (onSessionClosed reason s) = streamName s \<and>
   \<not> hasEnded (onSessionClosed reason s) \<and> availableStreams (onSessionClosed reason s) = [] \<and>
   waitingForAvailableStreamsAnswer (onSessionClosed reason s) \<and>
   waitingForSessionStart (onSessionClosed reason s) \<and>
   calls (onSessionClosed reason s) = calls s
     @ (case session s of None \<Rightarrow> [] | Some ses \<Rightarrow> [SessionEnd (id_session ses)])
     @ [RequestConsumerId]
     @ [if waitingForAvailableStreamsAnswer s then RequestStreams
        else SetTimeout DiscoveryTimer 1000]
     @ (if waitingForSessionStart s then [] else [SetTimeout SessionTimer 1000])"
  by (simp add: method_defs Let_def split: option.split)

section \<open>The discovery poll\<close>

text \<open>
  C1, as the code has it. \<open>updateStreamsAvailable\<close> begins with an explicit branch: when
  \<open>waitingForAvailableStreamsAnswer\<close> is set it calls \<open>requestStreams\<close> at once and
  returns, setting no time-out. So every event that reaches \<open>startConsumer\<close> while the
  flag is set (\<open>reenters\<close>) sends exactly one more source-list request. Apart from those
  events the claim holds: from the constructor on (or from any state in which at most
  one discovery time-out or request is outstanding, and none unless the flag is set),
  along every sequence of events none of which re-enters the poll in that way, at every
  moment at most one source-list request is in flight.
\<close>

theorem C1_single_flight_unless_reentered:
  "poll_bound (init sel clk) \<and>
   (poll_bound s \<and> calm (es @ rest) s \<and> run es s = Some s' \<longrightarrow>
      streamsRequests s' \<le> 1 \<and> poll_bound s') \<and>
   (waitingForAvailableStreamsAnswer s \<longrightarrow>
      calls (updateStreamsAvailable s) = calls s @ [RequestStreams] \<and>
      streamsRequests (updateStreamsAvailable s) = Suc (streamsRequests s) \<and>
      discoveryTimers (updateStreamsAvailable s) = discoveryTimers s) \<and>
   (reenters e s \<and> step e s = Some t \<longrightarrow>
      streamsRequests t = Suc (streamsRequests s) \<and> discoveryTimers t = discoveryTimers s \<and>
      count_list (calls t) RequestStreams = Suc (count_list (calls s) RequestStreams) \<and>
      count_list (calls t) (SetTimeout DiscoveryTimer 1000)
        = count_list (calls s) (SetTimeout DiscoveryTimer 1000) \<and>
      waitingForAvailableStreamsAnswer t)"
proof (intro conjI impI)
  show "poll_bound (init sel clk)"
    by (simp add: poll_bound_def init_def)
next
  assume a: "poll_bound s \<and> calm (es @ rest) s \<and> run es s = Some s'"
  then have "calm es s" by (auto dest: calm_append)
  with a have b: "poll_bound s'" by (auto intro: run_poll_bound)
  then show "streamsRequests s' \<le> 1" by (simp add: poll_bound_def split: if_splits)
  from b show "poll_bound s'" .
next
  assume "waitingForAvailableStreamsAnswer s"
  then show "calls (updateStreamsAvailable s) = calls s @ [RequestStreams]"
    "streamsRequests (updateStreamsAvailable s) = Suc (streamsRequests s)"
    "discoveryTimers (updateStreamsAvailable s) = discoveryTimers s"
    by (simp_all add: updateStreamsAvailable_def requestStreams_def emit_def)
next
  assume a: "reenters e s \<and> step e s = Some t"
  then have r: "reenters e s" and st: "step e s = Some t" by simp_all
  note step_reenters [OF r st]
  then show "streamsRequests t = Suc (streamsRequests s)"
    "discoveryTimers t = discoveryTimers s"
    "count_list (calls t) RequestStreams = Suc (count_list (calls s) RequestStreams)"
    "count_list (calls t) (SetTimeout DiscoveryTimer 1000)
        = count_list (calls s) (SetTimeout DiscoveryTimer 1000)"
    "waitingForAvailableStreamsAnswer t"
    by simp_all
qed

text \<open>
  Scenario A with a further poll and a close keeps one request at most; the session
  time-out without consumer id, fired while the second poll is in flight, makes it two.
\<close>

theorem C1_single_flight_unless_reentered_witness:
  "poll_bound (init None noon) \<and> calm (calm_run @ []) (init None noon) \<and>
   run calm_run (init None noon) = Some (the (run calm_run (init None noon))) \<and>
   streamsRequests (the (run calm_run (init None noon))) \<le> 1 \<and>
   waitingForAvailableStreamsAnswer (the (run second_poll_in_flight (init None noon))) \<and>
   streamsRequests (the (run second_poll_in_flight (init None noon))) = 1 \<and>
   reenters (TimerFired SessionTimer) (the (run second_poll_in_flight (init None noon))) \<and>
   step (TimerFired SessionTimer) (the (run second_poll_in_flight (init None noon)))
     = Some (the (step (TimerFired SessionTimer)
                   (the (run second_poll_in_flight (init None noon))))) \<and>
   streamsRequests (the (step (TimerFired SessionTimer)
                          (the (run second_poll_in_flight (init None noon))))) = 2"
proof -
  note c1 = C1_single_flight_unless_reentered
  have a: "poll_bound (init None noon) \<and> calm (calm_run @ []) (init None noon) \<and>
      run calm_run (init None noon) = Some (the (run calm_run (init None noon)))"
    by (simp add: calm_run_def poll_bound_def eval_defs)
  from c1 [of None noon "init None noon" calm_run "[]" "the (run calm_run (init None noon))",
      THEN conjunct2, THEN conjunct1, rule_format, OF a]
  have a': "streamsRequests (the (run calm_run (init None noon))) \<le> 1"
    by simp
  have b: "reenters (TimerFired SessionTimer) (the (run second_poll_in_flight (init None noon))) \<and>
      step (TimerFired SessionTimer) (the (run second_poll_in_flight (init None noon)))
        = Some (the (step (TimerFired SessionTimer)
                      (the (run second_poll_in_flight (init None noon)))))"
    by (simp add: second_poll_in_flight_def eval_defs)
  have w: "waitingForAvailableStreamsAnswer (the (run second_poll_in_flight (init None noon)))"
    "streamsRequests (the (run second_poll_in_flight (init None noon))) = 1"
    by (simp_all add: second_poll_in_flight_def eval_defs)
  from c1 [of None noon "the (run second_poll_in_flight (init None noon))" "[]" "[]" _
      "TimerFired SessionTimer"
      "the (step (TimerFired SessionTimer) (the (run second_poll_in_flight (init None noon))))",
      THEN conjunct2, THEN conjunct2, THEN conjunct2, rule_format, OF b] w(2)
  have b': "streamsRequests (the (step (TimerFired SessionTimer)
                          (the (run second_poll_in_flight (init None noon))))) = 2"
    by simp
  from a a' b b' w show ?thesis by simp
qed

text \<open>
  The statement without the exception fails. With a second poll in flight, the flag set
  and the manager not ended, the session time-out finds \<open>cam\<close> and no consumer id, calls
  \<open>startConsumer\<close>, and a second \<open>requestStreams\<close> leaves before any answer.
\<close>

theorem C1_counterexample:
  "map_option streamsRequests (run second_poll_in_flight (init None noon)) = Some 1 \<and>
   map_option waitingForAvailableStreamsAnswer (run second_poll_in_flight (init None noon))
     = Some True \<and>
   map_option hasEnded (run second_poll_in_flight (init None noon)) = Some False \<and>
   map_option streamsRequests
     (run (second_poll_in_flight @ [TimerFired SessionTimer]) (init None noon)) = Some 2 \<and>
   map_option hasEnded
     (run (second_poll_in_flight @ [TimerFired SessionTimer]) (init None noon)) = Some False \<and>
   map_option calls
     (run (second_poll_in_flight @ [TimerFired SessionTimer]) (init None noon))
     = Some [RequestConsumerId, SetTimeout DiscoveryTimer 1000,
             ParseAvailableStreamsAnswer, RequestStreams,
             SetTimeout DiscoveryTimer 1000, SetTimeout SessionTimer 1000,
             ParseAvailableStreamsAnswer, RequestStreams,
             RequestConsumerId, RequestStreams]"
  by (simp add: second_poll_in_flight_def eval_defs)

section \<open>Closing\<close>

text \<open>
  C2, as the code has it. \<open>close\<close> leaves no session and sets \<open>hasEnded\<close>. The discovery
  poll reads the flag in \<open>updateStreamsAvailable\<close>: as long as only its own events
  follow, the flag stays set, no further time-out is scheduled, and every further
  \<open>requestStreams\<close> uses up a time-out that was pending at \<open>close\<close>. The session-request
  loop never reads \<open>hasEnded\<close> (\<open>stopSession\<close> sets it on every change of selection,
  right before \<open>startSession\<close>), and \<open>requestSession\<close> clears it; the theorem says
  nothing about that loop.
\<close>

theorem C2_close_stops_discovery:
  assumes "\<forall>e\<in>set es. is_discovery e"
    and "run es (close reason s) = Some s'"
  shows "session (close reason s) = None \<and> hasEnded (close reason s) \<and> hasEnded s' \<and>
     count_list (calls s') (SetTimeout DiscoveryTimer 1000)
       = count_list (calls (close reason s)) (SetTimeout DiscoveryTimer 1000) \<and>
     count_list (calls s') RequestStreams + discoveryTimers s'
       \<le> count_list (calls (close reason s)) RequestStreams + discoveryTimers (close reason s)"
proof -
  have ended: "hasEnded (close reason s)"
    by (simp add: close_def)
  have gone: "session (close reason s) = None"
    by (simp add: close_def stopSession_def emit_def updateStreamStatus_def split: option.split)
  from run_discovery_ended [OF assms ended] ended gone show ?thesis by simp
qed

text \<open>
  The theorem at work: \<open>close\<close> right after the channel opened; the pending time-out
  sends one last poll, whose answer schedules nothing.
\<close>

theorem C2_close_stops_discovery_witness:
  "list_all is_discovery one_more_poll \<and>
   map_option calls (run one_more_poll (close ''bye'' (startConsumer (init None noon))))
     = Some [RequestConsumerId, SetTimeout DiscoveryTimer 1000, SignallerEnd ''bye'',
             ParseAvailableStreamsAnswer, RequestStreams] \<and>
   hasEnded (the (run one_more_poll (close ''bye'' (startConsumer (init None noon))))) \<and>
   map_option discoveryTimers (run one_more_poll (close ''bye'' (startConsumer (init None noon))))
     = Some 0"
proof -
  have h1: "\<forall>e\<in>set one_more_poll. is_discovery e"
    by (simp add: one_more_poll_def)
  have h2: "run one_more_poll (close ''bye'' (startConsumer (init None noon)))
     = Some (the (run one_more_poll (close ''bye'' (startConsumer (init None noon)))))"
    by (simp add: one_more_poll_def eval_defs)
  have h3: "map_option calls (run one_more_poll (close ''bye'' (startConsumer (init None noon))))
     = Some [RequestConsumerId, SetTimeout DiscoveryTimer 1000, SignallerEnd ''bye'',
             ParseAvailableStreamsAnswer, RequestStreams]"
    "map_option discoveryTimers (run one_more_poll (close ''bye'' (startConsumer (init None noon))))
     = Some 0"
    by (simp_all add: one_more_poll_def eval_defs)
  from C2_close_stops_discovery [OF h1 h2] h1 h3 show ?thesis
    by (simp add: list_all_iff)
qed

text \<open>
  The session-request loop goes on after \<open>close\<close>: its pending time-out sends the session
  request and clears \<open>hasEnded\<close>, and the session id that answers it creates a session
  and registers the negotiation parser.
\<close>

theorem C2_counterexample:
  "map_option hasEnded (run closed_while_requesting (init None noon)) = Some True \<and>
   map_option calls (run closed_while_requesting (init None noon))
     = Some [RequestConsumerId, SetTimeout DiscoveryTimer 1000,
             ParseAvailableStreamsAnswer, RequestStreams,
             SetTimeout DiscoveryTimer 1000, SetTimeout SessionTimer 1000,
             SignallerEnd ''bye''] \<and>
   map_option calls
     (run (closed_while_requesting @ [TimerFired SessionTimer, SessionIdReceived cam ''S1''])
        (init None noon))
     = Some [RequestConsumerId, SetTimeout DiscoveryTimer 1000,
             ParseAvailableStreamsAnswer, RequestStreams,
             SetTimeout DiscoveryTimer 1000, SetTimeout SessionTimer 1000,
             SignallerEnd ''bye'',
             RequestSessionId ''A1'' ''p1'',
             NewSession ''S1'' (Some ''A1'') cam,
             ParseEndSessionQuestion (Some ''A1'') ''p1'' ''S1'',
             ParseNegotiation (Some ''A1'') ''p1'' ''S1''] \<and>
   map_option hasEnded
     (run (closed_while_requesting @ [TimerFired SessionTimer, SessionIdReceived cam ''S1''])
        (init None noon)) = Some False"
  by (simp add: closed_while_requesting_def eval_defs)

section \<open>Receiving a session id\<close>

text \<open>
  C3, as the code has it. \<open>onSessionIdReceived\<close> compares nothing: whatever the desired
  source is by now, it constructs the session for the received id and the stream of the
  request, registers both parsers, and leaves \<open>streamName\<close> alone.
\<close>

theorem C3_session_created_unconditionally:
  "session (onSessionIdReceived stream producerId receivedSessionId s)
     = Some \<lparr>id_session = receivedSessionId, consumerId_session = consumerId s,
             stream_session = stream\<rparr> \<and>
   streamName (onSessionIdReceived stream producerId receivedSessionId s) = streamName s \<and>
   calls (onSessionIdReceived stream producerId receivedSessionId s)
     = calls s @ [NewSession receivedSessionId (consumerId s) stream,
                  ParseEndSessionQuestion (consumerId s) producerId receivedSessionId,
                  ParseNegotiation (consumerId s) producerId receivedSessionId]"
  by (simp add: onSessionIdReceived_def emit_def updateStreamStatus_def Let_def)

text \<open>
  The caller moves from \<open>cam\<close> to \<open>cam2\<close> while the request for \<open>cam\<close> is pending; the
  session \<open>S1\<close> on \<open>cam\<close> is created all the same.
\<close>

theorem C3_counterexample:
  "map_option streamName (run reselect_while_pending (init None noon)) = Some (Some ''cam2'') \<and>
   map_option session (run reselect_while_pending (init None noon))
     = Some (Some \<lparr>id_session = ''S1'', consumerId_session = Some ''A1'',
                   stream_session = \<lparr>id_stream = ''p1'', name_stream = ''cam''\<rparr>\<rparr>)"
  by (simp add: reselect_while_pending_def eval_defs)

section \<open>A session attempt without consumer id\<close>

text \<open>
  C4. When the time-out callback of \<open>startSession\<close> finds the stream but no consumer id,
  it calls \<open>startConsumer\<close> and then \<open>startSession\<close> without clearing
  \<open>waitingForSessionStart\<close> first (the branch for a stream that is not available does
  clear it). \<open>startSession\<close> returns at its guard, so no time-out is set: after the
  scenario the flag is set, no session time-out is pending, the consumer id that arrives
  next triggers no session request, and a session time-out cannot fire. By \<open>run_stalled\<close>
  this stays so whatever happens afterwards.
\<close>

theorem C4_missing_consumer_stalls:
  "map_option waitingForSessionStart (run no_consumer_yet (init None noon)) = Some True \<and>
   map_option sessionTimers (run no_consumer_yet (init None noon)) = Some 0 \<and>
   map_option consumerId (run (no_consumer_yet @ [ConsumerIdReceived ''A1'']) (init None noon))
     = Some (Some ''A1'') \<and>
   map_option calls (run (no_consumer_yet @ [ConsumerIdReceived ''A1'']) (init None noon))
     = Some [RequestConsumerId, SetTimeout DiscoveryTimer 1000,
             ParseAvailableStreamsAnswer, RequestStreams,
             SetTimeout DiscoveryTimer 1000, SetTimeout SessionTimer 1000,
             RequestConsumerId, RequestStreams] \<and>
   run (no_consumer_yet @ [ConsumerIdReceived ''A1'', TimerFired SessionTimer]) (init None noon)
     = None"
  by (simp add: no_consumer_yet_def eval_defs)

section \<open>Recovery after a session closed\<close>

text \<open>
  C5. \<open>onSessionClosed\<close> stops the session, clears \<open>consumerId\<close>, keeps the selected name
  and calls \<open>startConsumer\<close> and \<open>startSession\<close> (\<open>onSessionClosed_effects\<close>). The new
  session request is not always sent, though. When the session time-out finds the
  stream before the new consumer id has arrived, it takes the branch of C4, which
  leaves \<open>waitingForSessionStart\<close> set with no time-out pending. From then on, whatever
  happens, the only session request ever sent is the one of the closed session.
\<close>

theorem C5_recovery_stalls:
  assumes "run (closed_then_stalled @ es) (init None noon) = Some s'"
  shows "filter is_session_request (calls s') = [RequestSessionId ''A1'' ''p1''] \<and>
     waitingForSessionStart s' \<and> sessionTimers s' = 0"
proof -
  define x where "x = the (run closed_then_stalled (init None noon))"
  have r: "run closed_then_stalled (init None noon) = Some x"
    unfolding x_def by (simp add: closed_then_stalled_def eval_defs)
  have st: "waitingForSessionStart x" "sessionTimers x = 0"
    "filter is_session_request (calls x) = [RequestSessionId ''A1'' ''p1'']"
    unfolding x_def by (simp_all add: closed_then_stalled_def eval_defs)
  from assms r have "run es x = Some s'"
    by (simp add: run_append)
  from run_stalled [OF st(1,2) this] st(3) show ?thesis by simp
qed

text \<open>
  After the scenario the manager has no session and still wants \<open>cam\<close>. The consumer id
  \<open>A2\<close> and the catalog with \<open>cam\<close> arrive: no session request follows, and no session
  time-out can fire.
\<close>

theorem C5_recovery_stalls_witness:
  "map_option session (run closed_then_stalled (init None noon)) = Some None \<and>
   map_option streamName (run closed_then_stalled (init None noon)) = Some (Some ''cam'') \<and>
   map_option consumerId
     (run (closed_then_stalled @ [ConsumerIdReceived ''A2'', AvailableStreamsAnswer [cam]])
        (init None noon)) = Some (Some ''A2'') \<and>
   map_option availableStreams
     (run (closed_then_stalled @ [ConsumerIdReceived ''A2'', AvailableStreamsAnswer [cam]])
        (init None noon)) = Some [cam] \<and>
   map_option (filter is_session_request \<circ> calls)
     (run (closed_then_stalled @ [ConsumerIdReceived ''A2'', AvailableStreamsAnswer [cam]])
        (init None noon)) = Some [RequestSessionId ''A1'' ''p1''] \<and>
   run (closed_then_stalled @ [ConsumerIdReceived ''A2'', AvailableStreamsAnswer [cam],
                               TimerFired SessionTimer]) (init None noon) = None"
proof -
  have r: "run (closed_then_stalled @ [ConsumerIdReceived ''A2'', AvailableStreamsAnswer [cam]])
        (init None noon)
      = Some (the (run (closed_then_stalled
                @ [ConsumerIdReceived ''A2'', AvailableStreamsAnswer [cam]]) (init None noon)))"
    by (simp add: closed_then_stalled_def eval_defs)
  from C5_recovery_stalls [OF r] r
  have a: "map_option (filter is_session_request \<circ> calls)
     (run (closed_then_stalled @ [ConsumerIdReceived ''A2'', AvailableStreamsAnswer [cam]])
        (init None noon)) = Some [RequestSessionId ''A1'' ''p1'']"
    by (metis comp_apply option.simps(9))
  have b: "map_option session (run closed_then_stalled (init None noon)) = Some None"
    "map_option streamName (run closed_then_stalled (init None noon)) = Some (Some ''cam'')"
    "map_option consumerId
     (run (closed_then_stalled @ [ConsumerIdReceived ''A2'', AvailableStreamsAnswer [cam]])
        (init None noon)) = Some (Some ''A2'')"
    "map_option availableStreams
     (run (closed_then_stalled @ [ConsumerIdReceived ''A2'', AvailableStreamsAnswer [cam]])
        (init None noon)) = Some [cam]"
    "run (closed_then_stalled @ [ConsumerIdReceived ''A2'', AvailableStreamsAnswer [cam],
                               TimerFired SessionTimer]) (init None noon) = None"
    by (simp_all add: closed_then_stalled_def eval_defs)
  from a b show ?thesis by simp
qed

section \<open>Changing the selected stream\<close>

text \<open>
  C6. The watcher stops the session of a defined old stream, records the name of a
  defined new one and calls \<open>startSession\<close>. In the state that the branch of C4 leaves
  behind (\<open>waitingForSessionStart\<close> set, no session time-out pending) \<open>startSession\<close>
  returns at its guard: the name is recorded, nothing else happens, and no session is
  requested for the new stream whatever follows.
\<close>

theorem C6_selection_stalls:
  assumes "run (stalled_then_selected @ es) (init None noon) = Some s'"
  shows "filter is_session_request (calls s') = [] \<and>
     waitingForSessionStart s' \<and> sessionTimers s' = 0"
proof -
  define x where "x = the (run stalled_then_selected (init None noon))"
  have r: "run stalled_then_selected (init None noon) = Some x"
    unfolding x_def by (simp add: stalled_then_selected_def eval_defs)
  have st: "waitingForSessionStart x" "sessionTimers x = 0"
    "filter is_session_request (calls x) = []"
    unfolding x_def by (simp_all add: stalled_then_selected_def eval_defs)
  from assms r have "run es x = Some s'"
    by (simp add: run_append)
  from run_stalled [OF st(1,2) this] st(3) show ?thesis by simp
qed

text \<open>
  The selection of \<open>cam2\<close> adds no call to the log. With the consumer id present and
  \<open>cam2\<close> in the refreshed catalog, no session request follows and no session time-out
  can fire.
\<close>

theorem C6_selection_stalls_witness:
  "map_option streamName (run stalled_then_selected (init None noon)) = Some (Some ''cam2'') \<and>
   map_option consumerId (run stalled_then_selected (init None noon)) = Some (Some ''A1'') \<and>
   map_option calls (run stalled_then_selected (init None noon))
     = map_option calls (run (butlast stalled_then_selected) (init None noon)) \<and>
   map_option availableStreams
     (run (stalled_then_selected @ [AvailableStreamsAnswer [cam, cam2]]) (init None noon))
     = Some [cam, cam2] \<and>
   map_option calls
     (run (stalled_then_selected @ [AvailableStreamsAnswer [cam, cam2]]) (init None noon))
     = Some [RequestConsumerId, SetTimeout DiscoveryTimer 1000,
             ParseAvailableStreamsAnswer, RequestStreams,
             SetTimeout DiscoveryTimer 1000, SetTimeout SessionTimer 1000,
             RequestConsumerId, RequestStreams, SetTimeout DiscoveryTimer 1000] \<and>
   map_option sessionTimers
     (run (stalled_then_selected @ [AvailableStreamsAnswer [cam, cam2]]) (init None noon))
     = Some 0 \<and>
   run (stalled_then_selected @ [AvailableStreamsAnswer [cam, cam2], TimerFired SessionTimer])
     (init None noon) = None"
proof -
  have r: "run (stalled_then_selected @ [AvailableStreamsAnswer [cam, cam2]]) (init None noon)
      = Some (the (run (stalled_then_selected @ [AvailableStreamsAnswer [cam, cam2]])
                (init None noon)))"
    by (simp add: stalled_then_selected_def eval_defs)
  from C6_selection_stalls [OF r] r
  have a: "map_option sessionTimers
     (run (stalled_then_selected @ [AvailableStreamsAnswer [cam, cam2]]) (init None noon))
     = Some 0"
    by (metis option.simps(9))
  have b: "map_option streamName (run stalled_then_selected (init None noon)) = Some (Some ''cam2'')"
    "map_option consumerId (run stalled_then_selected (init None noon)) = Some (Some ''A1'')"
    "map_option calls (run stalled_then_selected (init None noon))
     = map_option calls (run (butlast stalled_then_selected) (init None noon))"
    "map_option availableStreams
     (run (stalled_then_selected @ [AvailableStreamsAnswer [cam, cam2]]) (init None noon))
     = Some [cam, cam2]"
    "map_option calls
     (run (stalled_then_selected @ [AvailableStreamsAnswer [cam, cam2]]) (init None noon))
     = Some [RequestConsumerId, SetTimeout DiscoveryTimer 1000,
             ParseAvailableStreamsAnswer, RequestStreams,
             SetTimeout DiscoveryTimer 1000, SetTimeout SessionTimer 1000,
             RequestConsumerId, RequestStreams, SetTimeout DiscoveryTimer 1000]"
    "run (stalled_then_selected @ [AvailableStreamsAnswer [cam, cam2], TimerFired SessionTimer])
     (init None noon) = None"
    by (simp_all add: stalled_then_selected_def eval_defs)
  from a b show ?thesis by simp
qed

section \<open>A desired source that is not in the catalog\<close>

text \<open>
  C7. When the session time-out fires and no catalog entry has the desired name:
  \<^item> the only outgoing call is a new session time-out of 1000 ms, so no session request
    is issued; the flag was cleared on the way, or \<open>startSession\<close> would not have set
    the time-out, and that call sets it again; the miss is written to the stream status;
  \<^item> the loop never gives up: as long as the catalog stays as it is, every further
    session time-out fires, misses again and leaves the next one pending;
  \<^item> the re-check uses the catalog as it is then: when the poll awaits an answer and the
    answer arrives before the next session time-out, the catalog is the answer, and the
    time-out requests the session from the entry of the desired name if there is one
    (and a consumer id), and sets the next time-out if there is none;
  \<^item> when the poll awaits no answer, an answer changes nothing: the catalog stays.
\<close>

theorem C7_source_not_in_catalog:
  assumes "waitingForSessionStart s"
    and "\<forall>st\<in>set (availableStreams s). Some (name_stream st) \<noteq> streamName s"
  shows "calls (onSessionTimeout s) = calls s @ [SetTimeout SessionTimer 1000] \<and>
     sessionRequests (onSessionTimeout s) = sessionRequests s \<and>
     sessionTimers (onSessionTimeout s) = Suc (sessionTimers s) \<and>
     waitingForSessionStart (onSessionTimeout s) \<and>
     session (onSessionTimeout s) = session s \<and>
     streamStatus (onSessionTimeout s) = stamped (not_available_msg s) (clock s (ticks s)) \<and>
     (\<forall>n. \<exists>u. run (replicate n (TimerFired SessionTimer)) (onSessionTimeout s) = Some u \<and>
        waitingForSessionStart u \<and> sessionTimers u = Suc (sessionTimers s) \<and>
        availableStreams u = availableStreams s \<and>
        filter is_session_request (calls u) = filter is_session_request (calls s)) \<and>
     (\<forall>streams s2 s3.
        waitingForAvailableStreamsAnswer s \<and>
        step (AvailableStreamsAnswer streams) (onSessionTimeout s) = Some s2 \<and>
        step (TimerFired SessionTimer) s2 = Some s3 \<longrightarrow>
        availableStreams s2 = streams \<and>
        (\<forall>stream cid.
           find (\<lambda>st. Some (name_stream st) = streamName s) streams = Some stream \<and>
           consumerId s = Some cid \<longrightarrow>
           calls s3 = calls s2 @ [RequestSessionId cid (id_stream stream)] \<and>
           \<not> waitingForSessionStart s3) \<and>
        (find (\<lambda>st. Some (name_stream st) = streamName s) streams = None \<longrightarrow>
           calls s3 = calls s2 @ [SetTimeout SessionTimer 1000] \<and>
           waitingForSessionStart s3 \<and> 0 < sessionTimers s3)) \<and>
     (\<forall>streams s2.
        \<not> waitingForAvailableStreamsAnswer s \<and>
        step (AvailableStreamsAnswer streams) (onSessionTimeout s) = Some s2 \<longrightarrow>
        availableStreams s2 = availableStreams s \<and> calls s2 = calls (onSessionTimeout s))"
proof -
  from assms(2) have miss: "find (\<lambda>st. Some (name_stream st) = streamName s) (availableStreams s) = None"
    by (simp add: find_None_iff)
  note eq = onSessionTimeout_miss [OF assms(1) miss]
  from eq assms(1) have now:
    "calls (onSessionTimeout s) = calls s @ [SetTimeout SessionTimer 1000]"
    "sessionRequests (onSessionTimeout s) = sessionRequests s"
    "sessionTimers (onSessionTimeout s) = Suc (sessionTimers s)"
    "waitingForSessionStart (onSessionTimeout s)"
    "session (onSessionTimeout s) = session s"
    "streamStatus (onSessionTimeout s) = stamped (not_available_msg s) (clock s (ticks s))"
    "availableStreams (onSessionTimeout s) = availableStreams s"
    "streamName (onSessionTimeout s) = streamName s"
    "consumerId (onSessionTimeout s) = consumerId s"
    "waitingForAvailableStreamsAnswer (onSessionTimeout s) = waitingForAvailableStreamsAnswer s"
    by (simp_all add: setTimeout_def emit_def updateStreamStatus_def stamped_def)
  have again: "\<exists>u. run (replicate n (TimerFired SessionTimer)) (onSessionTimeout s) = Some u \<and>
        waitingForSessionStart u \<and> sessionTimers u = Suc (sessionTimers s) \<and>
        availableStreams u = availableStreams s \<and>
        filter is_session_request (calls u) = filter is_session_request (calls s)" for n
  proof -
    from now miss have "0 < sessionTimers (onSessionTimeout s)"
      "find (\<lambda>st. Some (name_stream st) = streamName (onSessionTimeout s))
         (availableStreams (onSessionTimeout s)) = None"
      by simp_all
    from misses_repeat [OF now(4) this, of n] now show ?thesis by auto
  qed
  have refresh: "availableStreams s2 = streams \<and>
        (\<forall>stream cid.
           find (\<lambda>st. Some (name_stream st) = streamName s) streams = Some stream \<and>
           consumerId s = Some cid \<longrightarrow>
           calls s3 = calls s2 @ [RequestSessionId cid (id_stream stream)] \<and>
           \<not> waitingForSessionStart s3) \<and>
        (find (\<lambda>st. Some (name_stream st) = streamName s) streams = None \<longrightarrow>
           calls s3 = calls s2 @ [SetTimeout SessionTimer 1000] \<and>
           waitingForSessionStart s3 \<and> 0 < sessionTimers s3)"
    if "waitingForAvailableStreamsAnswer s \<and>
        step (AvailableStreamsAnswer streams) (onSessionTimeout s) = Some s2 \<and>
        step (TimerFired SessionTimer) s2 = Some s3" for streams s2 s3
  proof -
    from that now have "waitingForAvailableStreamsAnswer (onSessionTimeout s)"
      "step (AvailableStreamsAnswer streams) (onSessionTimeout s) = Some s2"
      "step (TimerFired SessionTimer) s2 = Some s3"
      by simp_all
    from refresh_then_recheck [OF now(4) this] now(8,9) show ?thesis
      by (auto split: option.splits)
  qed
  have ignored: "availableStreams s2 = availableStreams s \<and> calls s2 = calls (onSessionTimeout s)"
    if "\<not> waitingForAvailableStreamsAnswer s \<and>
        step (AvailableStreamsAnswer streams) (onSessionTimeout s) = Some s2" for streams s2
    using that now(7,10) by (auto simp: onAvailableStreams_def split: if_splits)
  from now(1-6) again refresh ignored show ?thesis by blast
qed

text \<open>
  \<open>cam\<close> is selected, the catalog holds only \<open>cam2\<close>, a poll is in flight. The time-out
  misses; three more misses leave a time-out pending; with the answer \<open>[cam2, cam]\<close> in
  between, the next time-out requests the session on \<open>p1\<close>.
\<close>

theorem C7_source_not_in_catalog_witness:
  "waitingForSessionStart polling \<and>
   list_all (\<lambda>st. Some (name_stream st) \<noteq> streamName polling) (availableStreams polling) \<and>
   calls (onSessionTimeout polling) = calls polling @ [SetTimeout SessionTimer 1000] \<and>
   sessionTimers (onSessionTimeout polling) = 1 \<and>
   map_option sessionTimers
     (run (replicate 3 (TimerFired SessionTimer)) (onSessionTimeout polling)) = Some 1 \<and>
   waitingForAvailableStreamsAnswer polling \<and>
   find (\<lambda>st. Some (name_stream st) = streamName polling) [cam2, cam] = Some cam \<and>
   consumerId polling = Some ''A1'' \<and>
   map_option calls
     (run [AvailableStreamsAnswer [cam2, cam], TimerFired SessionTimer] (onSessionTimeout polling))
     = Some (calls polling
             @ [SetTimeout SessionTimer 1000, SetTimeout DiscoveryTimer 1000,
                RequestSessionId ''A1'' ''p1''])"
proof -
  have h: "\<forall>st\<in>set (availableStreams polling). Some (name_stream st) \<noteq> streamName polling"
    by (simp add: polling_eval cam2_def)
  note c7 = C7_source_not_in_catalog [OF polling_eval(1) h]
  define s2 where "s2 = the (step (AvailableStreamsAnswer [cam2, cam]) (onSessionTimeout polling))"
  define s3 where "s3 = the (step (TimerFired SessionTimer) s2)"
  have e2: "step (AvailableStreamsAnswer [cam2, cam]) (onSessionTimeout polling) = Some s2"
    unfolding s2_def by (simp add: polling_def to_polling_def eval_defs)
  have e3: "step (TimerFired SessionTimer) s2 = Some s3"
    unfolding s3_def s2_def by (simp add: polling_def to_polling_def eval_defs)
  have c2: "calls s2 = calls polling @ [SetTimeout SessionTimer 1000, SetTimeout DiscoveryTimer 1000]"
    unfolding s2_def by (simp add: polling_def to_polling_def eval_defs)
  have f: "find (\<lambda>st. Some (name_stream st) = streamName polling) [cam2, cam] = Some cam"
    by (simp add: polling_eval cam_def cam2_def)
  from c7 have "\<forall>streams s2 s3.
        waitingForAvailableStreamsAnswer polling \<and>
        step (AvailableStreamsAnswer streams) (onSessionTimeout polling) = Some s2 \<and>
        step (TimerFired SessionTimer) s2 = Some s3 \<longrightarrow>
        availableStreams s2 = streams \<and>
        (\<forall>stream cid.
           find (\<lambda>st. Some (name_stream st) = streamName polling) streams = Some stream \<and>
           consumerId polling = Some cid \<longrightarrow>
           calls s3 = calls s2 @ [RequestSessionId cid (id_stream stream)] \<and>
           \<not> waitingForSessionStart s3) \<and>
        (find (\<lambda>st. Some (name_stream st) = streamName polling) streams = None \<longrightarrow>
           calls s3 = calls s2 @ [SetTimeout SessionTimer 1000] \<and>
           waitingForSessionStart s3 \<and> 0 < sessionTimers s3)"
    by (elim conjE)
  from this [rule_format, of "[cam2, cam]" s2 s3] polling_eval(2) e2 e3
  have "\<forall>stream cid.
           find (\<lambda>st. Some (name_stream st) = streamName polling) [cam2, cam] = Some stream \<and>
           consumerId polling = Some cid \<longrightarrow>
           calls s3 = calls s2 @ [RequestSessionId cid (id_stream stream)] \<and>
           \<not> waitingForSessionStart s3"
    by blast
  from this [rule_format, of cam "''A1''"] f polling_eval(5)
  have "calls s3 = calls s2 @ [RequestSessionId ''A1'' ''p1'']"
    by (simp add: cam_def)
  with c2 have c3: "calls s3 = calls polling
             @ [SetTimeout SessionTimer 1000, SetTimeout DiscoveryTimer 1000,
                RequestSessionId ''A1'' ''p1'']"
    by simp
  from e2 e3 have "run [AvailableStreamsAnswer [cam2, cam], TimerFired SessionTimer]
      (onSessionTimeout polling) = Some s3"
    by (simp only: run.simps option.case)
  with c3 have r: "map_option calls
     (run [AvailableStreamsAnswer [cam2, cam], TimerFired SessionTimer] (onSessionTimeout polling))
     = Some (calls polling
             @ [SetTimeout SessionTimer 1000, SetTimeout DiscoveryTimer 1000,
                RequestSessionId ''A1'' ''p1''])"
    by (simp only: option.map)
  from c7 have "\<forall>n. \<exists>u. run (replicate n (TimerFired SessionTimer)) (onSessionTimeout polling) = Some u \<and>
        waitingForSessionStart u \<and> sessionTimers u = Suc (sessionTimers polling) \<and>
        availableStreams u = availableStreams polling \<and>
        filter is_session_request (calls u) = filter is_session_request (calls polling)"
    by (elim conjE)
  from this [rule_format, of 3] obtain u where
    u: "run (replicate 3 (TimerFired SessionTimer)) (onSessionTimeout polling) = Some u"
      "sessionTimers u = Suc (sessionTimers polling)"
    by blast
  have m: "map_option sessionTimers
     (run (replicate 3 (TimerFired SessionTimer)) (onSessionTimeout polling)) = Some 1"
    by (simp only: u polling_eval(6) option.map One_nat_def)
  from c7 have n: "calls (onSessionTimeout polling) = calls polling @ [SetTimeout SessionTimer 1000]"
    "sessionTimers (onSessionTimeout polling) = Suc (sessionTimers polling)"
    by blast+
  from n(2) have n': "sessionTimers (onSessionTimeout polling) = 1"
    by (simp only: polling_eval(6) One_nat_def)
  from h have l: "list_all (\<lambda>st. Some (name_stream st) \<noteq> streamName polling) (availableStreams polling)"
    by (simp only: list_all_iff)
  show ?thesis
    by (intro conjI) (fact polling_eval(1) l n(1) n' m polling_eval(2) f polling_eval(5) r)+
qed

section \<open>The status texts\<close>

text \<open>
  C8, as the code has it. Every write to a status text is the message followed by the
  time in parentheses. The stream status is written when a session starts
  (\<open>onSessionIdReceived\<close>), when an existing session is stopped (also by \<open>close\<close>), and by
  every session attempt (stream not available, no consumer id, request sent). When there
  is no session, \<open>stopSession\<close> changes nothing and \<open>close\<close> writes neither text; nor do
  \<open>startConsumer\<close>, \<open>startSession\<close> and the receipt of the consumer id. (What the signaller
  reports through a status callback is an event of its own.)
\<close>

theorem C8_status_writes:
  "streamStatus (updateStreamStatus msg s) = stamped msg (clock s (ticks s)) \<and>
   signallerStatus (updateSignallerStatus msg s) = stamped msg (clock s (ticks s)) \<and>
   streamStatus (onSessionIdReceived stream producerId sid s)
     = stamped (''Session '' @ sid @ '' successfully started'') (clock s (ticks s)) \<and>
   (\<forall>ses. session s = Some ses \<longrightarrow>
      streamStatus (stopSession reason s)
        = stamped (''Stopping session '' @ id_session ses @ ''. Reason: '' @ reason)
            (clock s (ticks s)) \<and>
      streamStatus (close reason s) = streamStatus (stopSession reason s)) \<and>
   (waitingForSessionStart s \<longrightarrow>
      (case find (\<lambda>st. Some (name_stream st) = streamName s) (availableStreams s) of
         None \<Rightarrow> streamStatus (onSessionTimeout s) = stamped (not_available_msg s) (clock s (ticks s))
       | Some stream \<Rightarrow>
           (case consumerId s of
              None \<Rightarrow> streamStatus (onSessionTimeout s)
                        = stamped (no_consumer_msg stream s) (clock s (Suc (ticks s)))
            | Some cid \<Rightarrow> streamStatus (onSessionTimeout s)
                        = stamped (starting_msg stream s) (clock s (ticks s))))) \<and>
   (session s = None \<longrightarrow>
      stopSession reason s = s \<and>
      streamStatus (close reason s) = streamStatus s \<and>
      signallerStatus (close reason s) = signallerStatus s) \<and>
   streamStatus (startConsumer s) = streamStatus s \<and>
   signallerStatus (startConsumer s) = signallerStatus s \<and>
   streamStatus (startSession s) = streamStatus s \<and>
   signallerStatus (startSession s) = signallerStatus s \<and>
   streamStatus (onConsumerIdReceived newConsumerId s) = streamStatus s \<and>
   signallerStatus (onConsumerIdReceived newConsumerId s) = signallerStatus s"
  by (simp add: method_defs stamped_def Let_def no_consumer_msg_def not_available_msg_def
      starting_msg_def split: option.split)

text \<open>Stopping and closing with the session \<open>S1\<close>; a miss and a close without session.\<close>

theorem C8_status_writes_witness:
  "session active \<noteq> None \<and>
   streamStatus (stopSession ''bye'' active) = ''Stopping session S1. Reason: bye (12:00:00)'' \<and>
   streamStatus (close ''bye'' active) = ''Stopping session S1. Reason: bye (12:00:00)'' \<and>
   waitingForSessionStart missing \<and> session missing = None \<and>
   streamStatus (onSessionTimeout missing)
     = ''Failed to start a new Session with '' @ dq @ ''cam'' @ dq
         @ ''. Reason: not available (12:00:00)'' \<and>
   streamStatus (close ''bye'' missing) = streamStatus missing"
proof -
  have f: "find (\<lambda>st. Some (name_stream st) = streamName missing) (availableStreams missing) = None"
    by (simp add: missing_eval cam2_def)
  have c: "clock active (ticks active) = ''12:00:00''"
    by (simp add: active_def eval_defs)
  from C8_status_writes [of _ active _ _ _ "''bye''", THEN conjunct2, THEN conjunct2,
      THEN conjunct2, THEN conjunct1, rule_format, OF active_eval(1)] c
  have a: "streamStatus (stopSession ''bye'' active) = ''Stopping session S1. Reason: bye (12:00:00)''"
    "streamStatus (close ''bye'' active) = ''Stopping session S1. Reason: bye (12:00:00)''"
    by (simp_all add: stamped_def)
  from C8_status_writes [of _ missing _ _ _ "''bye''"] f missing_eval
  have m: "streamStatus (onSessionTimeout missing)
     = ''Failed to start a new Session with '' @ dq @ ''cam'' @ dq
         @ ''. Reason: not available (12:00:00)''"
    "streamStatus (close ''bye'' missing) = streamStatus missing"
    by (simp_all add: not_available_msg_def stamped_def show_opt_def noon_def)
  from a m active_eval(1) missing_eval(1,2) show ?thesis by simp
qed

text \<open>
  Four transitions that write no status text: registration starts, the consumer id
  arrives, a stream is selected and the request loop entered, the manager is closed.
  Both texts still read as the constructor set them.
\<close>

theorem C8_counterexample:
  "map_option consumerId (run quiet_transitions (init None noon)) = Some (Some ''A1'') \<and>
   map_option streamName (run quiet_transitions (init None noon)) = Some (Some ''cam'') \<and>
   map_option waitingForSessionStart (run quiet_transitions (init None noon)) = Some True \<and>
   map_option hasEnded (run quiet_transitions (init None noon)) = Some True \<and>
   map_option calls (run quiet_transitions (init None noon))
     = Some [RequestConsumerId, SetTimeout DiscoveryTimer 1000,
             SetTimeout SessionTimer 1000, SignallerEnd ''bye''] \<and>
   map_option streamStatus (run quiet_transitions (init None noon)) = Some ''waiting...'' \<and>
   map_option signallerStatus (run quiet_transitions (init None noon)) = Some ''waiting...'' \<and>
   streamStatus (init None noon) = ''waiting...'' \<and>
   signallerStatus (init None noon) = ''waiting...''"
  by (simp add: quiet_transitions_def eval_defs)

section \<open>Closing twice\<close>

text \<open>
  C9. After \<open>close\<close>, a second \<open>close\<close> changes no field of the manager (the signaller is
  told to end once more, which the log shows), and \<open>stopSession\<close> changes nothing at all:
  there is still no session, \<open>hasEnded\<close> is still set, and the stream status is not
  written again.
\<close>

theorem C9_close_idempotent:
  "close r2 (close r1 s) = (close r1 s)\<lparr>calls := calls (close r1 s) @ [SignallerEnd r2]\<rparr> \<and>
   stopSession r2 (close r1 s) = close r1 s \<and>
   session (close r2 (close r1 s)) = None \<and>
   hasEnded (close r2 (close r1 s)) \<and>
   streamStatus (close r2 (close r1 s)) = streamStatus (close r1 s)"
  by (simp add: close_def stopSession_def emit_def updateStreamStatus_def split: option.split)

section \<open>A selection with the same id\<close>

text \<open>
  C10. When the watcher runs with a new stream whose id equals the old one's (or both are
  undefined), the callback returns at once: the state is the same in every field.
\<close>

theorem C10_same_id_is_ignored:
  assumes "map_option id_stream newStream = map_option id_stream oldStream"
  shows "onSelectedStreamChanged newStream oldStream s = s"
  using assms by (simp add: onSelectedStreamChanged_def)

text \<open>The selected producer was renamed: another object, the same id.\<close>

theorem C10_same_id_is_ignored_witness:
  "map_option id_stream (Some cam_renamed) = map_option id_stream (Some cam) \<and>
   Some cam_renamed \<noteq> Some cam \<and>
   onSelectedStreamChanged (Some cam_renamed) (Some cam) active = active"
proof -
  have h: "map_option id_stream (Some cam_renamed) = map_option id_stream (Some cam)"
    by (simp add: cam_def cam_renamed_def)
  have d: "Some cam_renamed \<noteq> Some cam"
    by (simp add: cam_def cam_renamed_def)
  from C10_same_id_is_ignored [OF h, of active] h d show ?thesis by simp
qed

end
